theory Spec2Isabelle
  imports Complex_Main
begin

section \<open>Conventions of the embedding\<close>

text \<open>
  The two Python modules \<^verbatim>\<open>src/src/itd_generate.py\<close> (class \<^verbatim>\<open>generate_ITD\<close>) and
  \<^verbatim>\<open>src/jnd_exps.py\<close> (class \<^verbatim>\<open>jnd_experiment\<close>) are embedded as HOL functions.

  \<^item> Python and numpy floats are idealised as \<^typ>\<open>real\<close>: rounding, infinities and NaN are
    not modelled. A one-dimensional numpy array is a \<^typ>\<open>real list\<close>, an \<open>N \<times> 2\<close> stereo
    array a list of (left, right) pairs.
  \<^item> A raised exception is the \<open>Inl\<close> branch of a sum; a method that falls off its end
    returns Python's \<^verbatim>\<open>None\<close>, modelled by \<^const>\<open>None\<close>.
  \<^item> The objects' fields are records; a method takes the object and returns the updated one.
  \<^item> The random draws and the participant's keyboard input of one trial are an explicit
    argument of the trial, so that every run of the program is a run of the model for some
    sequence of such arguments.
  \<^item> Printing, sleeping, audio playback by the sound device and the redrawing of the plot
    after a trial change nothing the program computes with, and are left out. The call
    \<^verbatim>\<open>set_ylim\<close> of the constructor receives a value computed from an argument; its outcome
    is a parameter of the constructor's model.
  \<^item> \<^verbatim>\<open>src/jnd_exps.py\<close> as shipped does not compile: the docstring of \<^verbatim>\<open>trial_run\<close>
    (line 51) stands in column 4, the column of its \<^verbatim>\<open>def\<close> (line 49), and Python raises
    \<^verbatim>\<open>IndentationError\<close> when the module is imported or run. The column of that docstring
    is a parameter \<open>doc_col\<close> of the constructor and of the methods that exist only once
    the module is compiled: at \<open>shipped_col = 4\<close> they are the file as shipped, at
    \<open>indented_col = 8\<close> the file with that one line indented into the method's body.
\<close>

datatype py_error = ValueError | ZeroDivisionError | IndentationError

section \<open>\<^verbatim>\<open>itd_generate.py\<close>: the signal generator\<close>

record generate_ITD =
  sample_rate :: real
  avg_head_r :: real
  speed_of_sound :: real

text \<open>\<^verbatim>\<open>generate_ITD.__init__\<close> only stores its three arguments.\<close>

definition generate_ITD_init :: "real \<Rightarrow> real \<Rightarrow> real \<Rightarrow> py_error + generate_ITD" where
  "generate_ITD_init sr r c = Inr \<lparr>sample_rate = sr, avg_head_r = r, speed_of_sound = c\<rparr>"

text \<open>The generator built with the default arguments, \<^verbatim>\<open>generate_ITD()\<close>.\<close>

definition default_generator :: generate_ITD where
  "default_generator = \<lparr>sample_rate = 44100, avg_head_r = 0.0875, speed_of_sound = 343\<rparr>"

text \<open>\<^verbatim>\<open>np.clip(x, lo, hi)\<close> is \<^verbatim>\<open>minimum(maximum(x, lo), hi)\<close>.\<close>

definition np_clip :: "real \<Rightarrow> real \<Rightarrow> real \<Rightarrow> real" where
  "np_clip x lo hi = min (max x lo) hi"

text \<open>
  \<^verbatim>\<open>woodworth_model\<close>: the quotient \<^verbatim>\<open>avg_head_r / speed_of_sound\<close> is a division of
  Python floats, which raises \<^verbatim>\<open>ZeroDivisionError\<close> on a zero divisor.
\<close>

definition woodworth_model :: "generate_ITD \<Rightarrow> real \<Rightarrow> py_error + real" where
  "woodworth_model g angle_deg =
     (let theta = angle_deg * pi / 180;
          theta_c = np_clip theta (- pi / 2) (pi / 2)
      in if speed_of_sound g = 0 then Inl ZeroDivisionError
         else Inr ((avg_head_r g / speed_of_sound g) * (theta_c + sin theta_c)))"

definition simple_ild :: "real \<Rightarrow> real \<Rightarrow> real" where
  "simple_ild angle_deg max_ild = np_clip ((angle_deg / 90) * max_ild) (- max_ild) max_ild"

text \<open>
  \<^verbatim>\<open>np.interp(t, xp, fp, left, right)\<close> for the sample grid \<^verbatim>\<open>xp = arange(n)\<close> with
  \<open>n = length fp > 0\<close>: below the grid the value is \<open>left\<close>, above it \<open>right\<close>, at the
  last grid point the last sample, and otherwise the line through the two neighbouring
  samples.
\<close>

definition np_interp :: "real \<Rightarrow> real list \<Rightarrow> real \<Rightarrow> real \<Rightarrow> real" where
  "np_interp t fp left right =
     (let n = length fp
      in if t < 0 then left
         else if real (n - 1) < t then right
         else if t = real (n - 1) then fp ! (n - 1)
         else (let j = nat \<lfloor>t\<rfloor>
               in (fp ! (j + 1) - fp ! j) * (t - real j) + fp ! j))"

text \<open>
  \<^verbatim>\<open>fractional_shift\<close>: sample \<open>i\<close> of the result is the input interpolated at
  \<open>i - sample_shift\<close>. \<^verbatim>\<open>np.interp\<close> raises \<^verbatim>\<open>ValueError\<close> on an empty grid.
\<close>

definition fractional_shift :: "real list \<Rightarrow> real \<Rightarrow> py_error + real list" where
  "fractional_shift x sample_shift =
     (if x = [] then Inl ValueError
      else Inr (map (\<lambda>i. np_interp (real i - sample_shift) x 0 0) [0..<length x]))"

text \<open>
  \<^verbatim>\<open>np.max(np.abs(stereo_signal))\<close>: the largest absolute value over both columns;
  \<^verbatim>\<open>np.max\<close> raises \<^verbatim>\<open>ValueError\<close> on an array without elements.
\<close>

fun np_max :: "real list \<Rightarrow> py_error + real" where
  "np_max [] = Inl ValueError"
| "np_max (v # vs) = Inr (fold max vs v)"

definition np_abs_flat :: "(real \<times> real) list \<Rightarrow> real list" where
  "np_abs_flat stereo = concat (map (\<lambda>(l, r). [\<bar>l\<bar>, \<bar>r\<bar>]) stereo)"

text \<open>The stereo pair after the level gains, before normalisation (lines 107 to 115).\<close>

definition apply_ild :: "real \<Rightarrow> real list \<Rightarrow> real list \<Rightarrow> (real \<times> real) list" where
  "apply_ild angle_deg left right =
     (let ild = simple_ild angle_deg 6;
          increase_R = 10 powr ((ild / 20) / 2);
          increase_L = 10 powr ((- ild / 20) / 2)
      in zip (map (\<lambda>v. v * increase_L) left) (map (\<lambda>v. v * increase_R) right))"

text \<open>Peak normalisation (lines 118 to 120): divide by the peak only when it exceeds 1.\<close>

definition peak_normalise :: "(real \<times> real) list \<Rightarrow> py_error + (real \<times> real) list" where
  "peak_normalise stereo =
     (case np_max (np_abs_flat stereo) of
        Inl e \<Rightarrow> Inl e
      | Inr peak_norm \<Rightarrow>
          Inr (if peak_norm > 1 then map (\<lambda>(l, r). (l / peak_norm, r / peak_norm)) stereo
               else stereo))"

text \<open>
  Lines 85 to 102 of \<^verbatim>\<open>apply_itd\<close>: the delay in samples is split in two halves; the ear
  away from the source is delayed, the other one advanced.
\<close>

definition shifted_pair ::
  "generate_ITD \<Rightarrow> real list \<Rightarrow> real \<Rightarrow> py_error + (real list \<times> real list)" where
  "shifted_pair g mono_signal angle_deg =
     (case woodworth_model g angle_deg of
        Inl e \<Rightarrow> Inl e
      | Inr itd_sec \<Rightarrow>
          (let d_samples = itd_sec * sample_rate g;
               shift_left = 0.5 * \<bar>d_samples\<bar>;
               shift_right = - 0.5 * \<bar>d_samples\<bar>
           in case fractional_shift mono_signal
                     (if angle_deg \<ge> 0 then shift_left else shift_right) of
                Inl e \<Rightarrow> Inl e
              | Inr left \<Rightarrow>
                  (case fractional_shift mono_signal
                          (if angle_deg \<ge> 0 then shift_right else shift_left) of
                     Inl e \<Rightarrow> Inl e
                   | Inr right \<Rightarrow> Inr (left, right))))"

text \<open>
  \<^verbatim>\<open>apply_itd\<close>. The \<^verbatim>\<open>return\<close> statement stands inside the \<^verbatim>\<open>if use_ild:\<close> block, so with
  \<^verbatim>\<open>use_ild\<close> false the method reaches its end and returns \<^verbatim>\<open>None\<close>.
\<close>

definition apply_itd ::
  "generate_ITD \<Rightarrow> real list \<Rightarrow> real \<Rightarrow> bool \<Rightarrow> py_error + (real \<times> real) list option" where
  "apply_itd g mono_signal angle_deg use_ild =
     (case shifted_pair g mono_signal angle_deg of
        Inl e \<Rightarrow> Inl e
      | Inr (left, right) \<Rightarrow>
          if use_ild
          then (case peak_normalise (apply_ild angle_deg left right) of
                  Inl e \<Rightarrow> Inl e
                | Inr stereo_signal \<Rightarrow> Inr (Some stereo_signal))
          else Inr None)"

text \<open>
  \<^verbatim>\<open>int(x)\<close> on a float truncates towards zero.
\<close>

definition py_int :: "real \<Rightarrow> int" where
  "py_int x = (if x \<ge> 0 then \<lfloor>x\<rfloor> else \<lceil>x\<rceil>)"

text \<open>\<^verbatim>\<open>np.linspace(0, stop, num)[j]\<close>; a single point is the start.\<close>

definition np_linspace0 :: "real \<Rightarrow> nat \<Rightarrow> nat \<Rightarrow> real" where
  "np_linspace0 stop num j = (if num \<le> 1 then 0 else real j * stop / real (num - 1))"

text \<open>
  \<^verbatim>\<open>play_test_tone\<close>: a sine of \<open>n\<close> samples under a window that is 1 except for a
  raised-cosine ramp over the first and the last \<open>ramp_y\<close> samples. \<^verbatim>\<open>np.ones(n)\<close> raises
  \<^verbatim>\<open>ValueError\<close> for a negative \<open>n\<close>, and the in-place products of a slice of fewer than
  \<open>ramp_y\<close> samples with the \<open>ramp_y\<close> ramp values raise it unless \<open>ramp_y = 1\<close>.
\<close>

definition play_test_tone :: "generate_ITD \<Rightarrow> real \<Rightarrow> real \<Rightarrow> py_error + real list" where
  "play_test_tone g freq duration =
     (let n = py_int (sample_rate g * duration);
          ramp_y = max 1 (py_int (sample_rate g * 0.01));
          ramp_val = (\<lambda>j. 0.5 * (1 - cos (np_linspace0 pi (nat ramp_y) j)));
          t_tone = (\<lambda>i. sin (2 * pi * freq * (real i / sample_rate g)));
          window = (\<lambda>i. (if int i < ramp_y then ramp_val i else 1) *
                         (if n - ramp_y \<le> int i then ramp_val (nat n - 1 - i) else 1))
      in if n < 0 then Inl ValueError
         else if n < ramp_y \<and> ramp_y \<noteq> 1 then Inl ValueError
         else Inr (map (\<lambda>i. t_tone i * window i) [0..<nat n]))"

text \<open>
  \<^verbatim>\<open>tt_playback\<close> accepts an \<open>N \<times> 2\<close> array only; \<^verbatim>\<open>None\<close> becomes a zero-dimensional
  array and is refused with \<^verbatim>\<open>ValueError\<close>.
\<close>

definition tt_playback :: "(real \<times> real) list option \<Rightarrow> py_error + unit" where
  "tt_playback stereo_signal = (case stereo_signal of None \<Rightarrow> Inl ValueError | Some _ \<Rightarrow> Inr ())"

section \<open>\<^verbatim>\<open>jnd_exps.py\<close>: the adaptive staircase\<close>

text \<open>
  A Python string is the list of its Unicode code points. \<^verbatim>\<open>str.strip()\<close> removes the
  leading and trailing characters for which \<^verbatim>\<open>str.isspace\<close> holds.
\<close>

type_synonym py_str = "nat list"

definition py_isspace :: "nat \<Rightarrow> bool" where
  "py_isspace c =
     ((9 \<le> c \<and> c \<le> 13) \<or> (28 \<le> c \<and> c \<le> 32) \<or> c = 133 \<or> c = 160 \<or> c = 5760 \<or>
      (8192 \<le> c \<and> c \<le> 8202) \<or> c = 8232 \<or> c = 8233 \<or> c = 8239 \<or> c = 8287 \<or> c = 12288)"

definition py_strip :: "py_str \<Rightarrow> py_str" where
  "py_strip cs = rev (dropWhile py_isspace (rev (dropWhile py_isspace cs)))"

text \<open>The two response labels \<^verbatim>\<open>'1'\<close> and \<^verbatim>\<open>'2'\<close> (code points 49 and 50).\<close>

definition label_1 :: py_str where
  "label_1 = [49]"

definition label_2 :: py_str where
  "label_2 = [50]"

datatype direction = Up | Down

text \<open>
  The fields of a \<^verbatim>\<open>jnd_experiment\<close> that the staircase reads or writes. The field
  \<^verbatim>\<open>last_direction\<close> is \<^verbatim>\<open>None\<close>, \<^verbatim>\<open>'up'\<close> or \<^verbatim>\<open>'down'\<close>; the test
  \<^verbatim>\<open>if self.last_direction\<close> is false exactly for \<^verbatim>\<open>None\<close>.
\<close>

record jnd_experiment =
  generator :: generate_ITD
  tone :: "real list"
  angle :: real
  min_angle :: real
  max_angle :: real
  max_trials :: int
  correct_streak :: nat
  reversals :: nat
  last_direction :: "direction option"
  history_angle :: "real list"
  history_correct :: "bool list"

text \<open>
  Compiling the module. The header \<^verbatim>\<open>def trial_run(self):\<close> stands in column 4 and the
  statements of its body (line 53 onwards) in column 8. The first line after the header is
  the docstring, in column \<open>doc_col\<close>: not right of the header, Python expects an indented
  block; right of it but not in the column of the statements that follow, these do not
  match the block it opens. Either way the compiler raises \<^verbatim>\<open>IndentationError\<close> and no
  class and no method of the module exists.
\<close>

definition jnd_exps_import :: "nat \<Rightarrow> py_error + unit" where
  "jnd_exps_import doc_col =
     (if doc_col \<le> 4 then Inl IndentationError
      else if doc_col \<noteq> 8 then Inl IndentationError
      else Inr ())"

text \<open>The docstring's column in the file as shipped, and indented into the body.\<close>

definition shipped_col :: nat where
  "shipped_col = 4"

definition indented_col :: nat where
  "indented_col = 8"

text \<open>
  \<^verbatim>\<open>jnd_experiment.__init__\<close>, of the module compiled with the docstring in column
  \<open>doc_col\<close>: the generator and the tone are built with their default arguments but
  \<^verbatim>\<open>duration = 0.2\<close>, the four arguments are stored as they come, and the plot is set up
  (lines 39 to 47). Of the plot, \<^verbatim>\<open>self.ax.set_ylim(0, max_angle * 1.1)\<close> depends on an
  argument; \<open>set_ylim\<close> is what matplotlib answers to it, and an exception of it leaves no
  session.
\<close>

definition jnd_init ::
  "nat \<Rightarrow> (real \<Rightarrow> real \<Rightarrow> py_error + unit) \<Rightarrow> int \<Rightarrow> real \<Rightarrow> real \<Rightarrow> real \<Rightarrow>
     py_error + jnd_experiment" where
  "jnd_init doc_col set_ylim max_trials_arg start_angle min_angle_arg max_angle_arg =
     (case jnd_exps_import doc_col of
        Inl e \<Rightarrow> Inl e
      | Inr _ \<Rightarrow>
          (case generate_ITD_init 44100 0.0875 343 of
             Inl e \<Rightarrow> Inl e
           | Inr g \<Rightarrow>
               (case play_test_tone g 750 0.2 of
                  Inl e \<Rightarrow> Inl e
                | Inr t \<Rightarrow>
                    (case set_ylim 0 (max_angle_arg * 1.1) of
                       Inl e \<Rightarrow> Inl e
                     | Inr _ \<Rightarrow>
                         Inr \<lparr>generator = g, tone = t, angle = start_angle,
                              min_angle = min_angle_arg, max_angle = max_angle_arg,
                              max_trials = max_trials_arg, correct_streak = 0,
                              reversals = 0, last_direction = None,
                              history_angle = [], history_correct = []\<rparr>))))"

text \<open>\<^verbatim>\<open>adjust_angle\<close> (lines 99 to 113).\<close>

definition adjust_angle :: "jnd_experiment \<Rightarrow> bool \<Rightarrow> jnd_experiment" where
  "adjust_angle s difficulty =
     (let s1 = (if difficulty then s\<lparr>angle := max (min_angle s) (angle s * 0.8)\<rparr>
                else s\<lparr>angle := min (max_angle s) (angle s * 1.25)\<rparr>);
          new_direction = (if difficulty then Down else Up);
          s2 = (if last_direction s1 \<noteq> None \<and> Some new_direction \<noteq> last_direction s1
                then s1\<lparr>reversals := reversals s1 + 1\<rparr> else s1)
      in s2\<lparr>last_direction := Some new_direction\<rparr>)"

text \<open>
  What one trial takes from outside: \<^verbatim>\<open>random.choice([-1, 1])\<close>,
  \<^verbatim>\<open>random.choice([0, 1])\<close> and the line read by \<^verbatim>\<open>input\<close>.
\<close>

datatype sign_draw = SignNeg | SignPos

datatype order_draw = Order0 | Order1

record trial_input =
  sign :: sign_draw
  order :: order_draw
  response :: py_str

definition sign_val :: "sign_draw \<Rightarrow> real" where
  "sign_val d = (case d of SignNeg \<Rightarrow> - 1 | SignPos \<Rightarrow> 1)"

text \<open>Line 53: the signed angle of the trial.\<close>

definition target_angle :: "trial_input \<Rightarrow> jnd_experiment \<Rightarrow> real" where
  "target_angle inp s = sign_val (sign inp) * angle s"

text \<open>Lines 57 to 64: the label of the sound that is further to the left.\<close>

definition correct_response :: "trial_input \<Rightarrow> jnd_experiment \<Rightarrow> py_str" where
  "correct_response inp s =
     (case order inp of
        Order0 \<Rightarrow> (if target_angle inp s < 0 then label_2 else label_1)
      | Order1 \<Rightarrow> (if target_angle inp s < 0 then label_1 else label_2))"

text \<open>Lines 76 to 81: scoring the stripped input.\<close>

definition is_correct :: "trial_input \<Rightarrow> jnd_experiment \<Rightarrow> bool" where
  "is_correct inp s =
     (let pp_response = py_strip (response inp)
      in if pp_response \<noteq> label_1 \<and> pp_response \<noteq> label_2 then False
         else pp_response = correct_response inp s)"

text \<open>Lines 85 to 88: the staircase update. Nothing is done after an incorrect trial.\<close>

definition update_staircase :: "bool \<Rightarrow> jnd_experiment \<Rightarrow> jnd_experiment" where
  "update_staircase correct s =
     (if correct
      then (let s1 = s\<lparr>correct_streak := correct_streak s + 1\<rparr>
            in if correct_streak s1 \<ge> 2 then adjust_angle s1 False else s1)
      else s)"

text \<open>Lines 91 and 92: the two logs.\<close>

definition log_trial :: "real \<Rightarrow> bool \<Rightarrow> jnd_experiment \<Rightarrow> jnd_experiment" where
  "log_trial target correct s =
     s\<lparr>history_angle := history_angle s @ [target],
       history_correct := history_correct s @ [correct]\<rparr>"

text \<open>
  \<^verbatim>\<open>trial_run\<close>: both sounds are synthesised (with \<^verbatim>\<open>use_ild\<close> left at its default) and
  played in the drawn order, the response is read and scored, the staircase is updated
  and the trial logged. The method exists only when the module compiles: with the
  docstring in column \<open>doc_col = 4\<close>, as shipped, every use of it is the
  \<^verbatim>\<open>IndentationError\<close> of the import.
\<close>

definition trial_run ::
  "nat \<Rightarrow> trial_input \<Rightarrow> jnd_experiment \<Rightarrow>
     py_error + ((bool \<times> real) \<times> jnd_experiment)" where
  "trial_run doc_col inp s =
     (let target = target_angle inp s;
          made_a = (case order inp of
                      Order0 \<Rightarrow> apply_itd (generator s) (tone s) 0 True
                    | Order1 \<Rightarrow> apply_itd (generator s) (tone s) target True);
          made_b = (case order inp of
                      Order0 \<Rightarrow> apply_itd (generator s) (tone s) target True
                    | Order1 \<Rightarrow> apply_itd (generator s) (tone s) 0 True)
      in case jnd_exps_import doc_col of
           Inl e \<Rightarrow> Inl e
         | Inr _ \<Rightarrow>
      case made_a of
           Inl e \<Rightarrow> Inl e
         | Inr sound_a \<Rightarrow>
             (case made_b of
                Inl e \<Rightarrow> Inl e
              | Inr sound_b \<Rightarrow>
                  (case tt_playback sound_a of
                     Inl e \<Rightarrow> Inl e
                   | Inr _ \<Rightarrow>
                       (case tt_playback sound_b of
                          Inl e \<Rightarrow> Inl e
                        | Inr _ \<Rightarrow>
                            (let correct = is_correct inp s
                             in Inr ((correct, target),
                                     log_trial target correct (update_staircase correct s)))))))"

text \<open>
  \<^verbatim>\<open>run\<close>: the loop reads \<^verbatim>\<open>self.max_trials\<close> and \<^verbatim>\<open>self.reversals\<close> before every trial;
  \<open>env trial\<close> is what trial number \<open>trial\<close> (counted from 0) takes from outside. An
  exception of a trial ends the run. The method returns the two logs. Like
  \<^verbatim>\<open>trial_run\<close>, it exists only when the module compiles.
\<close>

function run_loop ::
  "nat \<Rightarrow> (nat \<Rightarrow> trial_input) \<Rightarrow> nat \<Rightarrow> jnd_experiment \<Rightarrow> py_error + jnd_experiment" where
  "run_loop doc_col env trial s =
     (if int trial < max_trials s \<and> reversals s < 10
      then (case trial_run doc_col (env trial) s of
              Inl e \<Rightarrow> Inl e
            | Inr (_, s') \<Rightarrow> run_loop doc_col env (trial + 1) s')
      else Inr s)"
  by pat_completeness auto
termination
proof (relation "measure (\<lambda>(doc_col, env, trial, s). nat (max_trials s - int trial))")
  show "wf (measure (\<lambda>(doc_col, env, trial, s). nat (max_trials s - int trial)))"
    by simp
next
  fix doc_col and env :: "nat \<Rightarrow> trial_input" and trial s res_state res s'
  assume running: "int trial < max_trials s \<and> reversals s < 10"
    and ran: "trial_run doc_col (env trial) s = Inr res_state"
    and parts: "(res, s') = res_state"
  have "max_trials s' = max_trials s"
    using ran parts
    by (auto simp: trial_run_def Let_def log_trial_def update_staircase_def adjust_angle_def
        split: sum.splits if_splits)
  with running show "((doc_col, env, trial + 1, s'), doc_col, env, trial, s)
       \<in> measure (\<lambda>(doc_col, env, trial, s). nat (max_trials s - int trial))"
    by simp
qed

declare run_loop.simps [simp del]

definition run ::
  "nat \<Rightarrow> (nat \<Rightarrow> trial_input) \<Rightarrow> jnd_experiment \<Rightarrow>
     py_error + ((real list \<times> bool list) \<times> jnd_experiment)" where
  "run doc_col env s =
     (case jnd_exps_import doc_col of
        Inl e \<Rightarrow> Inl e
      | Inr _ \<Rightarrow>
          (case run_loop doc_col env 0 s of
             Inl e \<Rightarrow> Inl e
           | Inr s' \<Rightarrow> Inr ((history_angle s', history_correct s'), s')))"

section \<open>Vocabulary of the statements\<close>

text \<open>The tone every session holds: \<^verbatim>\<open>play_test_tone(duration = 0.2)\<close> of the default generator.\<close>

definition session_tone :: "real list" where
  "session_tone = projr (play_test_tone default_generator 750 0.2)"

text \<open>A session whose two sounds can be synthesised: a tone with a sample, a speed of sound.\<close>

definition can_synthesise :: "jnd_experiment \<Rightarrow> bool" where
  "can_synthesise s = (tone s \<noteq> [] \<and> speed_of_sound (generator s) \<noteq> 0)"

text \<open>A plotting library that accepts every pair of axis limits.\<close>

definition ylim_accepted :: "real \<Rightarrow> real \<Rightarrow> py_error + unit" where
  "ylim_accepted lo hi = Inr ()"

text \<open>The session after the trials fed with the given inputs, one after the other.\<close>

fun after_trials ::
  "nat \<Rightarrow> trial_input list \<Rightarrow> jnd_experiment \<Rightarrow> py_error + jnd_experiment" where
  "after_trials doc_col [] s = Inr s"
| "after_trials doc_col (inp # inps) s =
     (case trial_run doc_col inp s of
        Inl e \<Rightarrow> Inl e
      | Inr (_, s') \<Rightarrow> after_trials doc_col inps s')"

text \<open>
  A scripted participant for a positive probe angle: with the draws \<open>d\<close> and \<open>o\<close> the
  left-most sound is the second one exactly when the target is drawn to the left and
  played second, or drawn to the right and played first; the participant types the label
  of that sound when \<open>correct\<close> and the other label otherwise.
\<close>

definition scripted_input :: "sign_draw \<Rightarrow> order_draw \<Rightarrow> bool \<Rightarrow> trial_input" where
  "scripted_input d o_draw correct =
     \<lparr>sign = d, order = o_draw,
      response = (if ((d = SignNeg) = (o_draw = Order0)) = correct then label_2 else label_1)\<rparr>"

text \<open>The angle-dependent factor of the Woodworth delay: \<open>\<theta>\<^sub>c + sin \<theta>\<^sub>c\<close> for the clamped angle.\<close>

definition woodworth_shape :: "real \<Rightarrow> real" where
  "woodworth_shape a =
     np_clip (a * pi / 180) (- pi / 2) (pi / 2) + sin (np_clip (a * pi / 180) (- pi / 2) (pi / 2))"

section \<open>The Woodworth delay\<close>

lemma np_clip_bounds: "lo \<le> hi \<Longrightarrow> lo \<le> np_clip x lo hi \<and> np_clip x lo hi \<le> hi"
  by (auto simp: np_clip_def)

lemma np_clip_mono: "x \<le> y \<Longrightarrow> np_clip x lo hi \<le> np_clip y lo hi"
  by (auto simp: np_clip_def)

lemma np_clip_odd: "0 \<le> h \<Longrightarrow> np_clip (- x) (- h) h = - np_clip x (- h) h"
  by (auto simp: np_clip_def min_def max_def)

lemma woodworth_shape_mono:
  assumes "a \<le> b"
  shows "woodworth_shape a \<le> woodworth_shape b"
proof -
  let ?c = "\<lambda>x. np_clip (x * pi / 180) (- pi / 2) (pi / 2)"
  have le: "?c a \<le> ?c b"
    using assms by (intro np_clip_mono) (simp add: divide_right_mono mult_right_mono)
  have "- (pi / 2) \<le> ?c a" "?c b \<le> pi / 2"
    using np_clip_bounds [of "- pi / 2" "pi / 2"] by simp_all
  with le have "sin (?c a) \<le> sin (?c b)"
    by (intro sin_monotone_2pi_le) simp_all
  with le show ?thesis by (simp add: woodworth_shape_def)
qed

lemma woodworth_shape_odd: "woodworth_shape (- a) = - woodworth_shape a"
proof -
  have "np_clip (- a * pi / 180) (- pi / 2) (pi / 2) = - np_clip (a * pi / 180) (- pi / 2) (pi / 2)"
    using np_clip_odd [of "pi / 2" "a * pi / 180"] by simp
  then show ?thesis by (simp add: woodworth_shape_def)
qed

lemma woodworth_shape_0: "woodworth_shape 0 = 0"
  by (simp add: woodworth_shape_def np_clip_def)

lemma woodworth_shape_abs: "\<bar>woodworth_shape a\<bar> = woodworth_shape \<bar>a\<bar>"
proof (cases "0 \<le> a")
  case True
  then have "0 \<le> woodworth_shape a"
    using woodworth_shape_mono [of 0 a] by (simp add: woodworth_shape_0)
  with True show ?thesis by simp
next
  case False
  then have "woodworth_shape a \<le> 0"
    using woodworth_shape_mono [of a 0] by (simp add: woodworth_shape_0)
  with False show ?thesis by (simp add: woodworth_shape_odd)
qed

lemma woodworth_model_shape:
  "speed_of_sound g \<noteq> 0 \<Longrightarrow>
   woodworth_model g a = Inr ((avg_head_r g / speed_of_sound g) * woodworth_shape a)"
  by (simp add: woodworth_model_def woodworth_shape_def Let_def)

text \<open>
  Claim C2, as stated, fails: for a source on the left the model returns a negative delay.
  At \<open>-90\<close> degrees the default generator returns \<open>- (0.0875 / 343) (\<pi>/2 + 1) < 0\<close>, which is
  also smaller than the delay 0 returned at 0 degrees, although \<open>|-90| > |0|\<close>.
\<close>

theorem woodworth_model_negative_counterexample:
  "woodworth_model default_generator (- 90) = Inr (- ((0.0875 / 343) * (pi / 2 + 1))) \<and>
   - ((0.0875 / 343) * (pi / 2 + 1)) < (0::real) \<and>
   woodworth_model default_generator 0 = Inr 0"
proof -
  have "(0::real) < (0.0875 / 343) * (pi / 2 + 1)"
    using pi_gt_zero by (simp add: add_pos_pos)
  moreover have "woodworth_model default_generator (- 90) =
      Inr (- ((0.0875 / 343) * (pi / 2 + 1)))"
    by (simp add: woodworth_model_def default_generator_def np_clip_def Let_def)
      (simp add: field_simps)
  moreover have "woodworth_model default_generator 0 = Inr 0"
    by (simp add: woodworth_model_def default_generator_def np_clip_def Let_def)
  ultimately show ?thesis by simp
qed

text \<open>
  Claim C2, amended: for a head radius \<open>\<ge> 0\<close> and a speed of sound \<open>> 0\<close> the model returns a
  delay for every angle; the delay is \<open>\<ge> 0\<close> for an angle \<open>\<ge> 0\<close> and \<open>\<le> 0\<close> for an angle
  \<open>\<le> 0\<close>, and its absolute value is monotonically non-decreasing in the absolute value of
  the angle (on \<open>[-90, 90]\<close> and beyond, where the clamp keeps it constant).
\<close>

theorem woodworth_model_sign_and_magnitude:
  assumes "0 \<le> avg_head_r g" and "0 < speed_of_sound g"
  shows "\<exists>d1 d2. woodworth_model g a1 = Inr d1 \<and> woodworth_model g a2 = Inr d2 \<and>
           (0 \<le> a1 \<longrightarrow> 0 \<le> d1) \<and> (a1 \<le> 0 \<longrightarrow> d1 \<le> 0) \<and>
           (\<bar>a1\<bar> \<le> \<bar>a2\<bar> \<longrightarrow> \<bar>d1\<bar> \<le> \<bar>d2\<bar>)"
proof -
  define q where "q = avg_head_r g / speed_of_sound g"
  from assms have q: "0 \<le> q" by (simp add: q_def)
  from assms have m: "woodworth_model g a = Inr (q * woodworth_shape a)" for a
    by (simp add: woodworth_model_shape q_def)
  have pos: "0 \<le> q * woodworth_shape a1" if "0 \<le> a1"
    using that q woodworth_shape_mono [of 0 a1] by (simp add: woodworth_shape_0)
  have neg: "q * woodworth_shape a1 \<le> 0" if "a1 \<le> 0"
    using that q woodworth_shape_mono [of a1 0]
    by (simp add: woodworth_shape_0 mult_nonneg_nonpos)
  have mag: "\<bar>q * woodworth_shape a1\<bar> \<le> \<bar>q * woodworth_shape a2\<bar>" if "\<bar>a1\<bar> \<le> \<bar>a2\<bar>"
  proof -
    from that have "woodworth_shape \<bar>a1\<bar> \<le> woodworth_shape \<bar>a2\<bar>"
      by (rule woodworth_shape_mono)
    with q show ?thesis
      by (simp add: abs_mult woodworth_shape_abs mult_left_mono)
  qed
  from m pos neg mag show ?thesis by blast
qed

theorem woodworth_model_sign_and_magnitude_witness:
  "\<exists>d1 d2. woodworth_model default_generator 30 = Inr d1 \<and>
     woodworth_model default_generator (- 90) = Inr d2 \<and> 0 \<le> d1 \<and> \<bar>d1\<bar> \<le> \<bar>d2\<bar>"
  using woodworth_model_sign_and_magnitude [of default_generator 30 "- 90"]
  by (simp add: default_generator_def)

section \<open>The fractional shift\<close>

lemma np_interp_grid:
  assumes "m < length fp"
  shows "np_interp (real m) fp l r = fp ! m"
proof (cases "m = length fp - 1")
  case True
  then show ?thesis by (simp add: np_interp_def)
next
  case False
  with assms have less: "m + 1 < length fp" by simp
  then have "real m + 1 < real (length fp)"
    by (metis of_nat_Suc of_nat_less_iff Suc_eq_plus1 add.commute)
  with less show ?thesis
    by (auto simp: np_interp_def Let_def)
qed

lemma np_interp_below: "t < 0 \<Longrightarrow> np_interp t fp l r = l"
  by (simp add: np_interp_def)

lemma np_interp_above: "0 \<le> t \<Longrightarrow> real (length fp - 1) < t \<Longrightarrow> np_interp t fp l r = r"
  by (simp add: np_interp_def)

lemma fractional_shift_Inr:
  "x \<noteq> [] \<Longrightarrow>
   fractional_shift x sh = Inr (map (\<lambda>i. np_interp (real i - sh) x 0 0) [0..<length x])"
  by (simp add: fractional_shift_def)

lemma integer_shift_nth:
  assumes "i < length x"
  shows "np_interp (real i - real_of_int k) x 0 0 =
         (if 0 \<le> int i - k \<and> int i - k < int (length x) then x ! nat (int i - k) else 0)"
proof (cases "0 \<le> int i - k")
  case nonneg: True
  then have r: "real i - real_of_int k = real (nat (int i - k))"
    by (simp add: of_nat_nat)
  show ?thesis
  proof (cases "int i - k < int (length x)")
    case True
    with nonneg have "nat (int i - k) < length x" by linarith
    then have "np_interp (real (nat (int i - k))) x 0 0 = x ! nat (int i - k)"
      by (rule np_interp_grid)
    with nonneg True r show ?thesis by presburger
  next
    case False
    with nonneg assms have "length x - 1 < nat (int i - k)" by linarith
    then have "real (length x - 1) < real (nat (int i - k))"
      by (simp only: of_nat_less_iff)
    then have "np_interp (real (nat (int i - k))) x 0 0 = 0"
      by (intro np_interp_above) simp_all
    with nonneg False r show ?thesis by presburger
  qed
next
  case False
  then have "real i - real_of_int k < 0" by linarith
  then have "np_interp (real i - real_of_int k) x 0 0 = 0"
    by (rule np_interp_below)
  with False show ?thesis by simp
qed

text \<open>
  Claim C9, as stated, fails for a shift that is not a whole number of samples: linear
  interpolation averages neighbouring samples and the shift back averages again. The
  impulse \<open>[0, 0, 0, 1, 0, 0, 0]\<close> shifted by \<open>+1/2\<close> and then by \<open>-1/2\<close> comes back as
  \<open>[0, 0, 1/4, 1/2, 1/4, 0, 0]\<close>: sample 3, three samples away from either end, is \<open>1/2\<close>
  and not 1.
\<close>

theorem fractional_shift_half_sample_counterexample:
  "fractional_shift [0, 0, 0, 1, 0, 0, 0] (1 / 2) = Inr [0, 0, 0, 1 / 2, 1 / 2, 0, 0] \<and>
   fractional_shift [0, 0, 0, 1 / 2, 1 / 2, 0, 0] (- (1 / 2)) = Inr [0, 0, 1 / 4, 1 / 2, 1 / 4, 0, 0] \<and>
   [0, 0, 1 / 4, 1 / 2, 1 / 4, 0, 0] ! 3 \<noteq> [0, 0, 0, 1, 0, 0, 0 :: real] ! 3"
  by (simp add: fractional_shift_def np_interp_def upt_rec Let_def)

lemma integer_round_trip:
  assumes "x \<noteq> []"
  shows "\<exists>y z. fractional_shift x (real_of_int k) = Inr y \<and>
           fractional_shift y (- real_of_int k) = Inr z \<and>
           length y = length x \<and> length z = length x \<and>
           (\<forall>i < length x. z ! i =
              (if 0 \<le> int i + k \<and> int i + k < int (length x) then x ! i else 0)) \<and>
           (\<forall>i. nat \<bar>k\<bar> \<le> i \<and> i + nat \<bar>k\<bar> < length x \<longrightarrow> z ! i = x ! i)"
proof -
  define y where "y = map (\<lambda>i. np_interp (real i - real_of_int k) x 0 0) [0..<length x]"
  define z where "z = map (\<lambda>i. np_interp (real i - (- real_of_int k)) y 0 0) [0..<length y]"
  have ly: "length y = length x" by (simp add: y_def)
  have lz: "length z = length x" by (simp add: z_def ly)
  from assms ly have ny: "y \<noteq> []" by auto
  have fy: "fractional_shift x (real_of_int k) = Inr y"
    using assms by (simp add: fractional_shift_Inr y_def)
  have fz: "fractional_shift y (- real_of_int k) = Inr z"
    using ny by (simp add: fractional_shift_Inr z_def)
  have y_nth: "y ! j = (if 0 \<le> int j - k \<and> int j - k < int (length x)
                         then x ! nat (int j - k) else 0)" if "j < length x" for j
    using that by (simp add: y_def integer_shift_nth)
  have z_nth: "z ! i = (if 0 \<le> int i + k \<and> int i + k < int (length x) then x ! i else 0)"
    if i: "i < length x" for i
  proof -
    have "z ! i = np_interp (real i - real_of_int (- k)) y 0 0"
      using i by (simp add: z_def ly)
    also have "np_interp (real i - real_of_int (- k)) y 0 0 = (if 0 \<le> int i - (- k) \<and> int i - (- k) < int (length y)
                       then y ! nat (int i - (- k)) else 0)"
      using i ly by (intro integer_shift_nth) simp
    finally have zi: "z ! i = (if 0 \<le> int i + k \<and> int i + k < int (length x)
                                then y ! nat (int i + k) else 0)"
      by (simp add: ly)
    show ?thesis
    proof (cases "0 \<le> int i + k \<and> int i + k < int (length x)")
      case True
      then have j: "nat (int i + k) < length x" by linarith
      have undo: "int (nat (int i + k)) - k = int i" using True by simp
      from y_nth [OF j] i have "y ! nat (int i + k) = x ! i"
        by (simp only: undo) simp
      with zi True show ?thesis by simp
    next
      case False
      with zi show ?thesis by auto
    qed
  qed
  have inner: "z ! i = x ! i" if "nat \<bar>k\<bar> \<le> i \<and> i + nat \<bar>k\<bar> < length x" for i
  proof -
    from that have "i < length x" "0 \<le> int i + k \<and> int i + k < int (length x)"
      by linarith+
    then show ?thesis by (simp add: z_nth)
  qed
  from fy fz ly lz z_nth inner show ?thesis by blast
qed

text \<open>
  Claim C9, amended: for every non-empty signal \<open>x\<close> and every shift \<open>s\<close>, the shift by \<open>+s\<close>
  and the shift of its result by \<open>-s\<close> both succeed and both outputs have the length of
  the input; a sample whose source position lies before the first or after the last
  sample is 0, in either output. If \<open>s\<close> is a whole number \<open>k\<close> of samples, the result of the
  round trip is \<open>x\<close> at every index \<open>i\<close> whose shifted position \<open>i + k\<close> lies inside the signal
  and 0 elsewhere, so it reproduces \<open>x\<close> at every index outside the edge regions of width
  \<open>|k|\<close> at the two ends.
\<close>

theorem fractional_shift_round_trip:
  assumes "x \<noteq> []"
  shows "\<exists>y z. fractional_shift x sh = Inr y \<and> fractional_shift y (- sh) = Inr z \<and>
           length y = length x \<and> length z = length x \<and>
           (\<forall>i < length x. real i - sh < 0 \<or> real (length x - 1) < real i - sh \<longrightarrow> y ! i = 0) \<and>
           (\<forall>i < length x. real i + sh < 0 \<or> real (length x - 1) < real i + sh \<longrightarrow> z ! i = 0) \<and>
           (\<forall>k. sh = real_of_int k \<longrightarrow>
              (\<forall>i < length x. z ! i =
                 (if 0 \<le> int i + k \<and> int i + k < int (length x) then x ! i else 0)) \<and>
              (\<forall>i. nat \<bar>k\<bar> \<le> i \<and> i + nat \<bar>k\<bar> < length x \<longrightarrow> z ! i = x ! i))"
proof -
  define y where "y = map (\<lambda>i. np_interp (real i - sh) x 0 0) [0..<length x]"
  define z where "z = map (\<lambda>i. np_interp (real i - (- sh)) y 0 0) [0..<length y]"
  have ly: "length y = length x" by (simp add: y_def)
  have lz: "length z = length x" by (simp add: z_def ly)
  from assms ly have ny: "y \<noteq> []" by auto
  have fy: "fractional_shift x sh = Inr y"
    using assms by (simp add: fractional_shift_Inr y_def)
  have fz: "fractional_shift y (- sh) = Inr z"
    using ny by (simp add: fractional_shift_Inr z_def)
  have zero_y: "y ! i = 0"
    if "i < length x" "real i - sh < 0 \<or> real (length x - 1) < real i - sh" for i
    using that by (auto simp: y_def np_interp_below np_interp_above)
  have zero_z: "z ! i = 0"
    if "i < length x" "real i + sh < 0 \<or> real (length x - 1) < real i + sh" for i
  proof -
    from that(1) have "z ! i = np_interp (real i + sh) y 0 0" by (simp add: z_def ly)
    with that(2) show ?thesis by (auto simp: ly np_interp_below np_interp_above)
  qed
  have whole: "(\<forall>i < length x. z ! i =
                 (if 0 \<le> int i + k \<and> int i + k < int (length x) then x ! i else 0)) \<and>
              (\<forall>i. nat \<bar>k\<bar> \<le> i \<and> i + nat \<bar>k\<bar> < length x \<longrightarrow> z ! i = x ! i)"
    if "sh = real_of_int k" for k
  proof -
    from integer_round_trip [OF assms, of k]
    obtain y' z' where "fractional_shift x (real_of_int k) = Inr y'"
      "fractional_shift y' (- real_of_int k) = Inr z'"
      and r: "\<forall>i < length x. z' ! i =
              (if 0 \<le> int i + k \<and> int i + k < int (length x) then x ! i else 0)"
        "\<forall>i. nat \<bar>k\<bar> \<le> i \<and> i + nat \<bar>k\<bar> < length x \<longrightarrow> z' ! i = x ! i"
      by blast
    with fy fz that have "z' = z" by simp
    with r show ?thesis by simp
  qed
  from fy fz ly lz zero_y zero_z whole show ?thesis by blast
qed

theorem fractional_shift_round_trip_witness:
  "\<exists>y z. fractional_shift [1, 2, 3, 4, 5] 1 = Inr y \<and> fractional_shift y (- 1) = Inr z \<and>
     length y = 5 \<and> length z = 5 \<and> y ! 0 = 0 \<and>
     z ! 1 = 2 \<and> z ! 2 = 3 \<and> z ! 3 = 4 \<and> z ! 4 = 0"
proof -
  let ?x = "[1, 2, 3, 4, 5 :: real]"
  have ne: "?x \<noteq> []" by simp
  from fractional_shift_round_trip [OF ne, of 1]
  obtain y z where yz: "fractional_shift ?x 1 = Inr y" "fractional_shift y (- 1) = Inr z"
      "length y = length ?x" "length z = length ?x"
    and zero: "\<forall>i < length ?x. real i - 1 < 0 \<or> real (length ?x - 1) < real i - 1 \<longrightarrow> y ! i = 0"
    and whole: "\<forall>k. (1::real) = real_of_int k \<longrightarrow>
        (\<forall>i < length ?x. z ! i =
           (if 0 \<le> int i + k \<and> int i + k < int (length ?x) then ?x ! i else 0))"
    by blast
  from zero have "y ! 0 = 0" by simp
  moreover from whole have "\<forall>i < length ?x. z ! i =
      (if 0 \<le> int i + 1 \<and> int i + 1 < int (length ?x) then ?x ! i else 0)"
    by (metis of_int_1)
  then have "z ! 1 = 2" "z ! 2 = 3" "z ! 3 = 4" "z ! 4 = 0"
    by simp_all
  ultimately show ?thesis using yz by simp
qed

section \<open>Stereo synthesis\<close>

lemma shifted_pair_cases:
  "shifted_pair g m a =
     (if speed_of_sound g = 0 then Inl ZeroDivisionError
      else if m = [] then Inl ValueError
      else Inr (projr (shifted_pair g m a)))"
  by (simp add: shifted_pair_def woodworth_model_def fractional_shift_def Let_def)

lemma shifted_pair_length:
  assumes "shifted_pair g m a = Inr (left, right)"
  shows "length left = length m \<and> length right = length m \<and> m \<noteq> []"
  using assms
  by (auto simp: shifted_pair_def woodworth_model_def fractional_shift_def Let_def
      split: if_splits)

text \<open>
  Claim C3 asks for a two-channel signal of the input's length when the level cue is
  switched off. The code returns no signal there: whenever the two shifts succeed,
  \<^verbatim>\<open>apply_itd(mono, angle, use_ild=False)\<close> returns \<^verbatim>\<open>None\<close>, for instance for the signal
  \<open>[0, 1]\<close> at angle 0; its docstring promises an \<open>[N, 2]\<close> stereo array.
\<close>

theorem apply_itd_without_ild:
  "apply_itd g mono_signal angle_deg False =
     (if speed_of_sound g = 0 then Inl ZeroDivisionError
      else if mono_signal = [] then Inl ValueError
      else Inr None)"
proof -
  have "apply_itd g mono_signal angle_deg False =
      (case shifted_pair g mono_signal angle_deg of Inl e \<Rightarrow> Inl e | Inr _ \<Rightarrow> Inr None)"
    by (simp add: apply_itd_def split: sum.splits prod.splits)
  also have "\<dots> = (if speed_of_sound g = 0 then Inl ZeroDivisionError
      else if mono_signal = [] then Inl ValueError else Inr None)"
    by (subst shifted_pair_cases) simp
  finally show ?thesis .
qed

lemma np_max_Max: "vs \<noteq> [] \<Longrightarrow> np_max vs = Inr (Max (set vs))"
  by (cases vs) (simp_all add: Max.set_eq_fold [symmetric])

lemma np_abs_flat_Nil: "np_abs_flat st = [] \<longleftrightarrow> st = []"
  by (cases st) (auto simp: np_abs_flat_def)

lemma np_abs_flat_scaled:
  assumes "0 < p"
  shows "np_abs_flat (map (\<lambda>(l, r). (l / p, r / p)) st) = map (\<lambda>v. v / p) (np_abs_flat st)"
  using assms by (induction st) (auto simp: np_abs_flat_def)

lemma Max_scaled:
  fixes p :: real
  assumes "vs \<noteq> []" and "0 < p"
  shows "Max (set (map (\<lambda>v. v / p) vs)) = Max (set vs) / p"
proof -
  have "mono (\<lambda>v. v / p)"
    using assms(2) by (simp add: mono_def divide_right_mono)
  then have "(\<lambda>v. v / p) (Max (set vs)) = Max ((\<lambda>v. v / p) ` set vs)"
    using assms(1) by (intro mono_Max_commute) simp_all
  then show ?thesis by simp
qed

lemma peak_normalise_props:
  assumes "pre \<noteq> []"
  shows "\<exists>p st q. np_max (np_abs_flat pre) = Inr p \<and> peak_normalise pre = Inr st \<and>
           np_max (np_abs_flat st) = Inr q \<and> q \<le> 1 \<and> q \<le> p \<and>
           (p \<le> 1 \<longrightarrow> st = pre) \<and> length st = length pre \<and>
           (\<forall>i < length pre. \<bar>fst (st ! i)\<bar> \<le> \<bar>fst (pre ! i)\<bar> \<and> \<bar>snd (st ! i)\<bar> \<le> \<bar>snd (pre ! i)\<bar>)"
proof -
  define p where "p = Max (set (np_abs_flat pre))"
  from assms have ne: "np_abs_flat pre \<noteq> []" by (simp add: np_abs_flat_Nil)
  then have mp: "np_max (np_abs_flat pre) = Inr p" by (simp add: np_max_Max p_def)
  show ?thesis
  proof (cases "p > 1")
    case False
    then have "peak_normalise pre = Inr pre" by (simp add: peak_normalise_def mp)
    with mp False show ?thesis by auto
  next
    case True
    define st where "st = map (\<lambda>(l, r). (l / p, r / p)) pre"
    from True have pn: "peak_normalise pre = Inr st" by (simp add: peak_normalise_def mp st_def)
    from True have p0: "0 < p" by simp
    have flat: "np_abs_flat st = map (\<lambda>v. v / p) (np_abs_flat pre)"
      unfolding st_def using p0 by (rule np_abs_flat_scaled)
    have "Max (set (np_abs_flat st)) = p / p"
      unfolding flat p_def using ne p0 [unfolded p_def] by (rule Max_scaled)
    with p0 have "Max (set (np_abs_flat st)) = 1" by simp
    moreover from ne flat have "np_abs_flat st \<noteq> []" by simp
    ultimately have mq: "np_max (np_abs_flat st) = Inr 1" by (simp add: np_max_Max)
    have smaller: "\<bar>v / p\<bar> \<le> \<bar>v\<bar>" for v :: real
    proof -
      have "\<bar>v\<bar> / p \<le> \<bar>v\<bar> / 1"
        using True by (intro divide_left_mono) simp_all
      with p0 show ?thesis by simp
    qed
    have "\<bar>fst (st ! i)\<bar> \<le> \<bar>fst (pre ! i)\<bar> \<and> \<bar>snd (st ! i)\<bar> \<le> \<bar>snd (pre ! i)\<bar>"
      if "i < length pre" for i
      using that smaller by (simp add: st_def split: prod.splits)
    moreover have "length st = length pre" by (simp add: st_def)
    ultimately show ?thesis using mp pn mq True by auto
  qed
qed

lemma np_abs_flat_set:
  "set (np_abs_flat st) = (\<lambda>p. \<bar>fst p\<bar>) ` set st \<union> (\<lambda>p. \<bar>snd p\<bar>) ` set st"
  by (induction st) (auto simp: np_abs_flat_def)

lemma np_max_bounds_samples:
  assumes "np_max (np_abs_flat st) = Inr q" and "i < length st"
  shows "\<bar>fst (st ! i)\<bar> \<le> q \<and> \<bar>snd (st ! i)\<bar> \<le> q"
proof -
  from assms(2) have mem: "st ! i \<in> set st" by simp
  then have ne: "np_abs_flat st \<noteq> []" by (auto simp: np_abs_flat_Nil)
  with assms(1) have q: "q = Max (set (np_abs_flat st))" by (simp add: np_max_Max)
  from mem have "\<bar>fst (st ! i)\<bar> \<in> set (np_abs_flat st)" "\<bar>snd (st ! i)\<bar> \<in> set (np_abs_flat st)"
    by (auto simp: np_abs_flat_set)
  then show ?thesis unfolding q by (simp add: Max_ge)
qed

text \<open>
  Claim C4: for every non-empty mono signal and every angle (and a generator with a speed
  of sound), \<^verbatim>\<open>apply_itd\<close> with the level cue returns a stereo signal \<open>st\<close> of the input's
  length in which every left and every right sample is at most 1 in absolute value; its
  peak \<open>q\<close> as the code measures it is at most 1. With \<open>p\<close> the peak of the pair after the
  level gains: \<open>q \<le> p\<close>, the pair is returned unchanged when \<open>p \<le> 1\<close>, and no sample of
  \<open>st\<close> is larger in absolute value than the sample it comes from.
\<close>

theorem apply_itd_peak_bounded:
  assumes "mono_signal \<noteq> []" and "speed_of_sound g \<noteq> 0"
  shows "\<exists>left right p st q.
           shifted_pair g mono_signal angle_deg = Inr (left, right) \<and>
           np_max (np_abs_flat (apply_ild angle_deg left right)) = Inr p \<and>
           apply_itd g mono_signal angle_deg True = Inr (Some st) \<and>
           length st = length mono_signal \<and>
           (\<forall>i < length st. \<bar>fst (st ! i)\<bar> \<le> 1 \<and> \<bar>snd (st ! i)\<bar> \<le> 1) \<and>
           np_max (np_abs_flat st) = Inr q \<and> q \<le> 1 \<and> q \<le> p \<and>
           (p \<le> 1 \<longrightarrow> st = apply_ild angle_deg left right) \<and>
           (\<forall>i < length st.
              \<bar>fst (st ! i)\<bar> \<le> \<bar>fst (apply_ild angle_deg left right ! i)\<bar> \<and>
              \<bar>snd (st ! i)\<bar> \<le> \<bar>snd (apply_ild angle_deg left right ! i)\<bar>)"
proof -
  obtain left right where sp: "shifted_pair g mono_signal angle_deg = Inr (left, right)"
    using assms shifted_pair_cases [of g mono_signal angle_deg]
    by (metis prod.exhaust_sel)
  then have len: "length left = length mono_signal" "length right = length mono_signal"
    using shifted_pair_length by blast+
  define pre where "pre = apply_ild angle_deg left right"
  have lpre: "length pre = length mono_signal"
    by (simp add: pre_def apply_ild_def Let_def len)
  with assms(1) have "pre \<noteq> []" by auto
  from peak_normalise_props [OF this]
  obtain p st q where props: "np_max (np_abs_flat pre) = Inr p" "peak_normalise pre = Inr st"
      "np_max (np_abs_flat st) = Inr q" "q \<le> 1" "q \<le> p" "p \<le> 1 \<longrightarrow> st = pre"
      "length st = length pre"
      "\<forall>i < length pre. \<bar>fst (st ! i)\<bar> \<le> \<bar>fst (pre ! i)\<bar> \<and> \<bar>snd (st ! i)\<bar> \<le> \<bar>snd (pre ! i)\<bar>"
    by blast
  have "apply_itd g mono_signal angle_deg True = Inr (Some st)"
    using sp props(2) by (simp add: apply_itd_def pre_def)
  moreover from props(7) lpre have "length st = length mono_signal" by simp
  moreover from props(8) props(7)
  have "\<forall>i < length st. \<bar>fst (st ! i)\<bar> \<le> \<bar>fst (pre ! i)\<bar> \<and> \<bar>snd (st ! i)\<bar> \<le> \<bar>snd (pre ! i)\<bar>"
    by simp
  moreover have "\<forall>i < length st. \<bar>fst (st ! i)\<bar> \<le> 1 \<and> \<bar>snd (st ! i)\<bar> \<le> 1"
  proof (intro allI impI)
    fix i assume "i < length st"
    from np_max_bounds_samples [OF props(3) this] props(4)
    show "\<bar>fst (st ! i)\<bar> \<le> 1 \<and> \<bar>snd (st ! i)\<bar> \<le> 1" by linarith
  qed
  ultimately show ?thesis
    using sp props(1,3,4,5,6) unfolding pre_def by blast
qed

theorem apply_itd_peak_bounded_witness:
  "apply_itd default_generator [2, - 4] 0 True = Inr (Some [(1 / 2, 1 / 2), (- 1, - 1)]) \<and>
   (\<exists>st q. apply_itd default_generator [2, - 4] 0 True = Inr (Some st) \<and> length st = 2 \<and>
      \<bar>fst (st ! 0)\<bar> \<le> 1 \<and> \<bar>snd (st ! 0)\<bar> \<le> 1 \<and> \<bar>fst (st ! 1)\<bar> \<le> 1 \<and> \<bar>snd (st ! 1)\<bar> \<le> 1 \<and>
      np_max (np_abs_flat st) = Inr q \<and> q \<le> 1)"
proof -
  have ne: "[2, - 4 :: real] \<noteq> []" by simp
  have sp: "speed_of_sound default_generator \<noteq> 0" by (simp add: default_generator_def)
  have val: "apply_itd default_generator [2, - 4] 0 True =
      Inr (Some [(1 / 2, 1 / 2), (- 1, - 1)])"
    by (simp add: apply_itd_def shifted_pair_def woodworth_model_def default_generator_def
      np_clip_def fractional_shift_def np_interp_def Let_def upt_rec apply_ild_def simple_ild_def
      peak_normalise_def np_abs_flat_def)
  from apply_itd_peak_bounded [OF ne sp, of 0]
  obtain st q where st: "apply_itd default_generator [2, - 4] 0 True = Inr (Some st)"
      "length st = length [2, - 4 :: real]" "np_max (np_abs_flat st) = Inr q" "q \<le> 1"
    and each: "\<forall>i < length st. \<bar>fst (st ! i)\<bar> \<le> 1 \<and> \<bar>snd (st ! i)\<bar> \<le> 1"
    by blast
  from each st(2) have "\<bar>fst (st ! 0)\<bar> \<le> 1 \<and> \<bar>snd (st ! 0)\<bar> \<le> 1"
      "\<bar>fst (st ! 1)\<bar> \<le> 1 \<and> \<bar>snd (st ! 1)\<bar> \<le> 1"
    by simp_all
  with st val show ?thesis by auto
qed

section \<open>Sessions and single trials\<close>

lemma import_indented: "jnd_exps_import indented_col = Inr ()"
  by (simp add: jnd_exps_import_def indented_col_def)

lemma import_shipped: "jnd_exps_import shipped_col = Inl IndentationError"
  by (simp add: jnd_exps_import_def shipped_col_def)

lemma play_test_tone_default:
  "\<exists>t. play_test_tone default_generator 750 0.2 = Inr t \<and> length t = 8820"
  by (simp add: play_test_tone_def default_generator_def Let_def py_int_def)

lemma session_tone:
  "play_test_tone default_generator 750 0.2 = Inr session_tone" "length session_tone = 8820"
  using play_test_tone_default by (auto simp: session_tone_def)

lemma session_tone_not_Nil: "session_tone \<noteq> []"
  using session_tone(2) by auto

lemma jnd_init_cases:
  "jnd_init dc set_ylim mt sa mn mx =
     (case jnd_exps_import dc of
        Inl e \<Rightarrow> Inl e
      | Inr _ \<Rightarrow>
          (case set_ylim 0 (mx * 1.1) of
             Inl e \<Rightarrow> Inl e
           | Inr _ \<Rightarrow>
               Inr \<lparr>generator = default_generator, tone = session_tone, angle = sa,
                    min_angle = mn, max_angle = mx, max_trials = mt, correct_streak = 0,
                    reversals = 0, last_direction = None, history_angle = [],
                    history_correct = []\<rparr>))"
proof -
  have "generate_ITD_init 44100 0.0875 343 = Inr default_generator"
    by (simp add: generate_ITD_init_def default_generator_def)
  with session_tone(1) show ?thesis
    by (simp add: jnd_init_def split: sum.splits)
qed

lemma jnd_init_eq:
  "jnd_init indented_col ylim_accepted mt sa mn mx =
     Inr \<lparr>generator = default_generator, tone = session_tone, angle = sa,
          min_angle = mn, max_angle = mx, max_trials = mt, correct_streak = 0,
          reversals = 0, last_direction = None, history_angle = [], history_correct = []\<rparr>"
  by (simp add: jnd_init_cases import_indented ylim_accepted_def)

lemma jnd_init_shipped: "jnd_init shipped_col set_ylim mt sa mn mx = Inl IndentationError"
  by (simp add: jnd_init_cases import_shipped)

lemma apply_itd_with_ild_returns:
  assumes "m \<noteq> []" and "speed_of_sound g \<noteq> 0"
  shows "\<exists>st. apply_itd g m a True = Inr (Some st)"
proof -
  obtain left right where sp: "shifted_pair g m a = Inr (left, right)"
    using assms by (auto simp: shifted_pair_def woodworth_model_def fractional_shift_def Let_def)
  then have "length left = length m" "length right = length m"
    by (auto simp: shifted_pair_def woodworth_model_def fractional_shift_def Let_def
      split: if_splits)
  with assms(1) have "np_abs_flat (apply_ild a left right) \<noteq> []"
    by (cases left; cases right) (auto simp: apply_ild_def Let_def np_abs_flat_def)
  then obtain v vs where "np_abs_flat (apply_ild a left right) = v # vs"
    by (cases "np_abs_flat (apply_ild a left right)") auto
  then show ?thesis
    using sp by (simp add: apply_itd_def peak_normalise_def)
qed

lemma trial_run_returns:
  assumes "jnd_exps_import dc = Inr ()" and "can_synthesise s"
  shows "trial_run dc inp s =
           Inr ((is_correct inp s, target_angle inp s),
                log_trial (target_angle inp s) (is_correct inp s)
                  (update_staircase (is_correct inp s) s))"
proof -
  from assms(2) have ok: "tone s \<noteq> []" "speed_of_sound (generator s) \<noteq> 0"
    by (simp_all add: can_synthesise_def)
  obtain st0 where a0: "apply_itd (generator s) (tone s) 0 True = Inr (Some st0)"
    using apply_itd_with_ild_returns [OF ok] by blast
  obtain st1 where a1:
    "apply_itd (generator s) (tone s) (target_angle inp s) True = Inr (Some st1)"
    using apply_itd_with_ild_returns [OF ok] by blast
  show ?thesis
    by (cases "order inp") (simp_all add: trial_run_def Let_def a0 a1 tt_playback_def assms(1))
qed


lemma run_shipped: "run shipped_col env s = Inl IndentationError"
  by (simp add: run_def import_shipped)

lemma can_synthesise_kept:
  "can_synthesise (log_trial t c (update_staircase c' s)) = can_synthesise s"
  by (simp add: can_synthesise_def log_trial_def update_staircase_def adjust_angle_def Let_def)

lemma init_can_synthesise:
  "can_synthesise \<lparr>generator = default_generator, tone = session_tone, angle = sa,
          min_angle = mn, max_angle = mx, max_trials = mt, correct_streak = k,
          reversals = n, last_direction = ld, history_angle = ha, history_correct = hc\<rparr>"
  by (simp add: can_synthesise_def session_tone_not_Nil default_generator_def)

lemma update_staircase_fields:
  "generator (update_staircase c s) = generator s"
  "tone (update_staircase c s) = tone s"
  "max_trials (update_staircase c s) = max_trials s"
  "history_angle (update_staircase c s) = history_angle s"
  "history_correct (update_staircase c s) = history_correct s"
  "reversals s \<le> reversals (update_staircase c s)"
  by (simp_all add: update_staircase_def adjust_angle_def Let_def)


lemma only_up_kept:
  assumes "reversals s = 0" and "last_direction s \<noteq> Some Down"
  shows "reversals (update_staircase c s) = 0 \<and> last_direction (update_staircase c s) \<noteq> Some Down"
proof (cases "last_direction s")
  case None
  with assms show ?thesis by (simp add: update_staircase_def adjust_angle_def Let_def)
next
  case (Some d)
  with assms have "d = Up" by (cases d) simp_all
  with Some assms show ?thesis by (simp add: update_staircase_def adjust_angle_def Let_def)
qed

lemma run_loop_stop:
  assumes "\<not> (int trial < max_trials s \<and> reversals s < 10)"
  shows "run_loop dc env trial s = Inr s"
  by (subst run_loop.simps) (simp only: assms if_False)

lemma run_loop_step:
  assumes "int trial < max_trials s" and "reversals s < 10"
    and "trial_run dc (env trial) s = Inr (r, s1)"
  shows "run_loop dc env trial s = run_loop dc env (trial + 1) s1"
  using assms by (subst run_loop.simps) simp

lemma run_loop_next:
  assumes "int trial < max_trials s" and "reversals s < 10"
    and "trial_run dc (env trial) s = Inr (r, s1)" and "next_trial = trial + 1"
  shows "run_loop dc env trial s = run_loop dc env next_trial s1"
  using assms by (simp add: run_loop_step)

lemma run_loop_returns:
  assumes "jnd_exps_import dc = Inr ()" and "can_synthesise s"
  shows "\<exists>s'. run_loop dc env trial s = Inr s' \<and> can_synthesise s' \<and>
           max_trials s' = max_trials s \<and> reversals s \<le> reversals s' \<and>
           (reversals s' < 10 \<longrightarrow>
              length (history_angle s') = length (history_angle s) + nat (max_trials s - int trial) \<and>
              length (history_correct s') =
                length (history_correct s) + nat (max_trials s - int trial))"
  using assms
proof (induction dc env trial s rule: run_loop.induct)
  case (1 dc env trial s)
  show ?case
  proof (cases "int trial < max_trials s \<and> reversals s < 10")
    case False
    then have "run_loop dc env trial s = Inr s" by (rule run_loop_stop)
    with False "1.prems"(2) show ?thesis by auto
  next
    case True
    define c where "c = is_correct (env trial) s"
    define t where "t = target_angle (env trial) s"
    define s1 where "s1 = log_trial t c (update_staircase c s)"
    have ran: "trial_run dc (env trial) s = Inr ((c, t), s1)"
      using "1.prems" by (simp add: trial_run_returns c_def t_def s1_def)
    have syn: "can_synthesise s1"
      using "1.prems"(2) by (simp add: s1_def can_synthesise_kept)
    from "1.IH" [OF True ran refl "1.prems"(1) syn]
    obtain s' where end': "run_loop dc env (trial + 1) s1 = Inr s'" "can_synthesise s'"
        "max_trials s' = max_trials s1" "reversals s1 \<le> reversals s'"
      and len: "reversals s' < 10 \<longrightarrow>
          length (history_angle s') = length (history_angle s1) + nat (max_trials s1 - int (trial + 1)) \<and>
          length (history_correct s') =
            length (history_correct s1) + nat (max_trials s1 - int (trial + 1))"
      by blast
    have s1_fields: "max_trials s1 = max_trials s" "reversals s \<le> reversals s1"
        "length (history_angle s1) = length (history_angle s) + 1"
        "length (history_correct s1) = length (history_correct s) + 1"
      by (simp_all add: s1_def log_trial_def update_staircase_fields)
    have step: "1 + nat (max_trials s - int (trial + 1)) = nat (max_trials s - int trial)"
      using True by linarith
    have "run_loop dc env trial s = Inr s'"
      using True ran end'(1) by (simp add: run_loop_step)
    moreover have "reversals s \<le> reversals s'"
      using s1_fields(2) end'(4) by simp
    moreover have "reversals s' < 10 \<longrightarrow>
        length (history_angle s') = length (history_angle s) + nat (max_trials s - int trial) \<and>
        length (history_correct s') = length (history_correct s) + nat (max_trials s - int trial)"
      using len s1_fields step by (simp only: ) linarith
    ultimately show ?thesis
      using end'(2,3) s1_fields(1) by auto
  qed
qed

lemma after_trials_only_up:
  assumes "jnd_exps_import dc = Inr ()" and "can_synthesise s" and "reversals s = 0" and "last_direction s \<noteq> Some Down"
  shows "\<exists>s'. after_trials dc inps s = Inr s' \<and> can_synthesise s' \<and> reversals s' = 0 \<and>
           last_direction s' \<noteq> Some Down \<and> max_trials s' = max_trials s \<and>
           length (history_angle s') = length (history_angle s) + length inps \<and>
           length (history_correct s') = length (history_correct s) + length inps"
  using assms
proof (induction inps arbitrary: s)
  case Nil
  then show ?case by simp
next
  case (Cons inp inps)
  define s1 where
    "s1 = log_trial (target_angle inp s) (is_correct inp s) (update_staircase (is_correct inp s) s)"
  have ran: "trial_run dc inp s = Inr ((is_correct inp s, target_angle inp s), s1)"
    using Cons.prems(1,2) by (simp add: trial_run_returns s1_def)
  have syn: "can_synthesise s1"
    using Cons.prems(2) by (simp add: s1_def can_synthesise_kept)
  have up: "reversals s1 = 0" "last_direction s1 \<noteq> Some Down"
    using only_up_kept [OF Cons.prems(3,4), of "is_correct inp s"]
    by (simp_all add: s1_def log_trial_def)
  have fields: "max_trials s1 = max_trials s"
      "length (history_angle s1) = length (history_angle s) + 1"
      "length (history_correct s1) = length (history_correct s) + 1"
    by (simp_all add: s1_def log_trial_def update_staircase_fields)
  from Cons.IH [OF Cons.prems(1) syn up] fields ran show ?case
    by auto
qed

lemma run_loop_after_trials:
  assumes "jnd_exps_import dc = Inr ()" and "can_synthesise s" and "reversals s = 0" and "last_direction s \<noteq> Some Down"
  shows "run_loop dc env trial s = after_trials dc (map env [trial..<nat (max_trials s)]) s"
  using assms
proof (induction dc env trial s rule: run_loop.induct)
  case (1 dc env trial s)
  show ?case
  proof (cases "int trial < max_trials s")
    case False
    then have "nat (max_trials s) \<le> trial" by linarith
    then have "map env [trial..<nat (max_trials s)] = []" by simp
    moreover from False have "run_loop dc env trial s = Inr s"
      by (intro run_loop_stop) simp
    ultimately show ?thesis by (simp only: after_trials.simps)
  next
    case True
    with "1.prems"(3) have running: "int trial < max_trials s \<and> reversals s < 10" by simp
    define s1 where "s1 = log_trial (target_angle (env trial) s) (is_correct (env trial) s)
        (update_staircase (is_correct (env trial) s) s)"
    have ran: "trial_run dc (env trial) s =
        Inr ((is_correct (env trial) s, target_angle (env trial) s), s1)"
      using "1.prems"(1,2) by (simp add: trial_run_returns s1_def)
    have syn: "can_synthesise s1"
      using "1.prems"(2) by (simp add: s1_def can_synthesise_kept)
    have up: "reversals s1 = 0" "last_direction s1 \<noteq> Some Down"
      using only_up_kept [OF "1.prems"(3,4), of "is_correct (env trial) s"]
      by (simp_all add: s1_def log_trial_def)
    have mt: "max_trials s1 = max_trials s"
      by (simp add: s1_def log_trial_def update_staircase_fields)
    from True have "trial < nat (max_trials s)" by linarith
    then have range: "[trial..<nat (max_trials s)] = trial # [trial + 1..<nat (max_trials s)]"
      by (simp add: upt_conv_Cons)
    have "run_loop dc env trial s = run_loop dc env (trial + 1) s1"
      using running ran by (simp add: run_loop_step)
    also have "\<dots> = after_trials dc (map env [trial + 1..<nat (max_trials s)]) s1"
      using "1.IH" [OF running ran refl "1.prems"(1) syn up] by (simp only: mt)
    finally show ?thesis
      by (simp add: range ran)
  qed
qed

section \<open>Construction\<close>

text \<open>
  Claim C5, as stated, fails: nothing is validated and no \<^verbatim>\<open>ConfigurationError\<close> exists. A
  generator with sample rate 0 or \<open>-1\<close> is constructed and holds that rate. With the
  docstring indented, a session with \<open>min_angle = 50 > max_angle = 10\<close> is constructed and
  holds these bounds; as shipped, construction fails with the \<^verbatim>\<open>IndentationError\<close> of the
  import for these bounds exactly as for the ordered bounds 0 and 90.
\<close>

theorem construction_accepts_inverted_bounds_counterexample:
  "generate_ITD_init 0 0.0875 343 =
     Inr \<lparr>sample_rate = 0, avg_head_r = 0.0875, speed_of_sound = 343\<rparr> \<and>
   generate_ITD_init (- 1) 0.0875 343 =
     Inr \<lparr>sample_rate = - 1, avg_head_r = 0.0875, speed_of_sound = 343\<rparr> \<and>
   \<not> isl (jnd_init indented_col ylim_accepted 10 10 50 10) \<and>
   min_angle (projr (jnd_init indented_col ylim_accepted 10 10 50 10)) = 50 \<and>
   max_angle (projr (jnd_init indented_col ylim_accepted 10 10 50 10)) = 10 \<and>
   jnd_init shipped_col ylim_accepted 10 10 50 10 = Inl IndentationError \<and>
   jnd_init shipped_col ylim_accepted 10 10 0 90 = Inl IndentationError"
  by (simp add: jnd_init_eq jnd_init_shipped generate_ITD_init_def)

text \<open>
  Claim C5, amended: inverted angle bounds and a non-positive sample rate are never refused.
  \<^verbatim>\<open>generate_ITD.__init__\<close> stores every sample rate. \<^verbatim>\<open>jnd_experiment.__init__\<close> does the
  same for every \<open>min_angle\<close>, up to the value it stores; a session it returns holds the
  angle, the two bounds and \<open>max_trials\<close> as given; and an exception it raises is that of
  compiling the module or, the module compiled, that of matplotlib refusing the axis limits
  \<open>(0, 1.1 max_angle)\<close>.
\<close>

theorem construction_ignores_bounds:
  "generate_ITD_init sr r c = Inr \<lparr>sample_rate = sr, avg_head_r = r, speed_of_sound = c\<rparr> \<and>
   jnd_init dc set_ylim mt sa mn mx =
     map_sum id (\<lambda>s. s\<lparr>min_angle := mn\<rparr>) (jnd_init dc set_ylim mt sa mn' mx) \<and>
   (\<forall>s. jnd_init dc set_ylim mt sa mn mx = Inr s \<longrightarrow>
      angle s = sa \<and> min_angle s = mn \<and> max_angle s = mx \<and> max_trials s = mt) \<and>
   (\<forall>e. jnd_init dc set_ylim mt sa mn mx = Inl e \<longrightarrow>
      jnd_exps_import dc = Inl e \<or>
      (jnd_exps_import dc = Inr () \<and> set_ylim 0 (mx * 1.1) = Inl e))"
proof -
  have gen: "generate_ITD_init sr r c =
      Inr \<lparr>sample_rate = sr, avg_head_r = r, speed_of_sound = c\<rparr>"
    by (simp add: generate_ITD_init_def)
  have same: "jnd_init dc set_ylim mt sa mn mx =
      map_sum id (\<lambda>s. s\<lparr>min_angle := mn\<rparr>) (jnd_init dc set_ylim mt sa mn' mx)"
    by (simp add: jnd_init_cases split: sum.splits)
  have stored: "angle s = sa \<and> min_angle s = mn \<and> max_angle s = mx \<and> max_trials s = mt"
    if "jnd_init dc set_ylim mt sa mn mx = Inr s" for s
    using that by (auto simp: jnd_init_cases split: sum.splits)
  have failures: "jnd_exps_import dc = Inl e \<or>
      (jnd_exps_import dc = Inr () \<and> set_ylim 0 (mx * 1.1) = Inl e)"
    if "jnd_init dc set_ylim mt sa mn mx = Inl e" for e
    using that by (auto simp: jnd_init_cases split: sum.splits)
  from gen same stored failures show ?thesis by blast
qed

theorem construction_ignores_bounds_witness:
  "\<exists>s. jnd_init indented_col ylim_accepted 10 10 50 10 = Inr s \<and>
     angle s = 10 \<and> min_angle s = 50 \<and> max_angle s = 10 \<and> max_trials s = 10"
proof -
  obtain s where s: "jnd_init indented_col ylim_accepted 10 10 50 10 = Inr s"
    by (simp add: jnd_init_eq)
  with construction_ignores_bounds [of _ _ _ indented_col ylim_accepted 10 10 50 10]
  show ?thesis by blast
qed

section \<open>The angle adjustment\<close>

text \<open>
  Claim C6: from a state with no previous direction, the adjustments up, down, up, down
  leave \<open>reversals\<close> unchanged after the first one (whatever its direction) and raise it
  by one at each of the three changes of direction, to \<open>reversals + 3\<close>.
\<close>

theorem adjust_angle_reversal_count:
  assumes "last_direction s = None"
  shows "reversals (adjust_angle s difficulty) = reversals s \<and>
         reversals (adjust_angle s False) = reversals s \<and>
         reversals (adjust_angle (adjust_angle s False) True) = reversals s + 1 \<and>
         reversals (adjust_angle (adjust_angle (adjust_angle s False) True) False) =
           reversals s + 2 \<and>
         reversals (adjust_angle (adjust_angle (adjust_angle (adjust_angle s False) True) False)
           True) = reversals s + 3"
  using assms by (simp add: adjust_angle_def Let_def)

theorem adjust_angle_reversal_count_witness:
  "last_direction (projr (jnd_init indented_col ylim_accepted 10 10 0 90)) = None \<and>
   reversals (adjust_angle (adjust_angle (adjust_angle (adjust_angle
     (projr (jnd_init indented_col ylim_accepted 10 10 0 90)) False) True) False) True) = 3"
proof -
  have none: "last_direction (projr (jnd_init indented_col ylim_accepted 10 10 0 90)) = None"
    by (simp add: jnd_init_eq)
  from adjust_angle_reversal_count [OF none, of True] none show ?thesis
    by (simp add: jnd_init_eq)
qed

section \<open>Scoring the response\<close>




section \<open>The run of a session\<close>

text \<open>
  Claim C7 asks for exactly 5 trial records from a run with \<open>max_trials = 5\<close>. The file as
  shipped raises \<^verbatim>\<open>IndentationError\<close> when it is imported: no session is constructed, no
  run returns, no record is appended. With the docstring of \<^verbatim>\<open>trial_run\<close> indented, a run
  with \<open>max_trials = 5\<close> of a session whose sounds can be synthesised returns the two logs,
  and if \<open>reversals\<close> has not reached 10 at its end (it never decreases, so it never did)
  exactly 5 entries were appended to each log.
\<close>

theorem run_five_trials:
  "jnd_init shipped_col set_ylim 5 sa mn mx = Inl IndentationError \<and>
   run shipped_col env s = Inl IndentationError \<and>
   (can_synthesise s \<and> max_trials s = 5 \<longrightarrow>
      (\<exists>s'. run indented_col env s = Inr ((history_angle s', history_correct s'), s') \<and>
         (reversals s' < 10 \<longrightarrow>
            length (history_angle s') = length (history_angle s) + 5 \<and>
            length (history_correct s') = length (history_correct s) + 5)))"
proof -
  have indented: "\<exists>s'. run indented_col env s = Inr ((history_angle s', history_correct s'), s') \<and>
         (reversals s' < 10 \<longrightarrow>
            length (history_angle s') = length (history_angle s) + 5 \<and>
            length (history_correct s') = length (history_correct s) + 5)"
    if syn: "can_synthesise s" and five: "max_trials s = 5"
  proof -
    from run_loop_returns [OF import_indented syn, of env 0]
    obtain s' where "run_loop indented_col env 0 s = Inr s'"
      and "reversals s' < 10 \<longrightarrow>
          length (history_angle s') = length (history_angle s) + nat (max_trials s - int 0) \<and>
          length (history_correct s') = length (history_correct s) + nat (max_trials s - int 0)"
      by blast
    with five show ?thesis
      by (auto simp: run_def import_indented)
  qed
  with jnd_init_shipped run_shipped show ?thesis by blast
qed

theorem run_five_trials_witness:
  "run shipped_col (\<lambda>i. \<lparr>sign = SignPos, order = Order0, response = label_1\<rparr>)
     (projr (jnd_init indented_col ylim_accepted 5 10 0 90)) = Inl IndentationError \<and>
   can_synthesise (projr (jnd_init indented_col ylim_accepted 5 10 0 90)) \<and> max_trials (projr (jnd_init indented_col ylim_accepted 5 10 0 90)) = 5 \<and>
   (\<exists>s'. run indented_col (\<lambda>i. \<lparr>sign = SignPos, order = Order0, response = label_1\<rparr>)
            (projr (jnd_init indented_col ylim_accepted 5 10 0 90)) = Inr ((history_angle s', history_correct s'), s') \<and>
          reversals s' < 10 \<and> length (history_angle s') = 5 \<and> length (history_correct s') = 5)"
proof -
  let ?s = "projr (jnd_init indented_col ylim_accepted 5 10 0 90)"
  let ?env = "\<lambda>i::nat. \<lparr>sign = SignPos, order = Order0, response = label_1\<rparr>"
  have syn: "can_synthesise ?s" by (simp add: jnd_init_eq init_can_synthesise)
  have mt: "max_trials ?s = 5" by (simp add: jnd_init_eq)
  have up: "reversals ?s = 0" "last_direction ?s \<noteq> Some Down" by (simp_all add: jnd_init_eq)
  have empty: "history_angle ?s = []" "history_correct ?s = []" by (simp_all add: jnd_init_eq)
  from run_five_trials [of _ _ _ _ ?env ?s] syn mt
  obtain s' where ran: "run indented_col ?env ?s = Inr ((history_angle s', history_correct s'), s')"
    and len: "reversals s' < 10 \<longrightarrow>
          length (history_angle s') = length (history_angle ?s) + 5 \<and>
          length (history_correct s') = length (history_correct ?s) + 5"
    by blast
  from after_trials_only_up [OF import_indented syn up, of "map ?env [0..<nat (max_trials ?s)]"]
  obtain s'' where "after_trials indented_col (map ?env [0..<nat (max_trials ?s)]) ?s = Inr s''"
    and "reversals s'' = 0"
    by blast
  with run_loop_after_trials [OF import_indented syn up, of ?env 0]
  have "run indented_col ?env ?s = Inr ((history_angle s'', history_correct s''), s'')"
    by (simp add: run_def import_indented)
  with ran \<open>reversals s'' = 0\<close> have "reversals s' < 10" by simp
  with len ran syn mt empty run_shipped show ?thesis by auto
qed

text \<open>
  Claim C10 is about what every session does. The file as shipped raises
  \<^verbatim>\<open>IndentationError\<close> when it is imported, so no session is constructed and none ends by
  its trial count. With the docstring of \<^verbatim>\<open>trial_run\<close> indented, in a session constructed
  with any arguments, after any sequence of trials with any inputs \<open>reversals\<close> is 0 and
  \<open>last_direction\<close> is not \<^verbatim>\<open>'down'\<close> (which an adjustment with \<^verbatim>\<open>difficulty=True\<close> would
  leave there); the run returns, its final state is the state after the trials
  \<open>0, \<dots>, max_trials - 1\<close>, with \<open>reversals = 0 < 10\<close> and one log entry per trial: it ends
  by the trial count alone.
\<close>

theorem session_only_steps_up:
  "jnd_init shipped_col set_ylim mt sa mn mx = Inl IndentationError \<and>
   run shipped_col env s = Inl IndentationError \<and>
   (\<exists>s0. jnd_init indented_col ylim_accepted mt sa mn mx = Inr s0 \<and>
     (\<forall>inps. \<exists>s. after_trials indented_col inps s0 = Inr s \<and> reversals s = 0 \<and>
        last_direction s \<noteq> Some Down) \<and>
     (\<forall>s. last_direction (adjust_angle s True) = Some Down) \<and>
     (\<exists>s'. run indented_col env s0 = Inr ((history_angle s', history_correct s'), s') \<and>
        after_trials indented_col (map env [0..<nat mt]) s0 = Inr s' \<and>
        reversals s' = 0 \<and> last_direction s' \<noteq> Some Down \<and>
        length (history_angle s') = nat mt \<and> length (history_correct s') = nat mt))"
proof -
  define s0 where "s0 = \<lparr>generator = default_generator, tone = session_tone, angle = sa,
          min_angle = mn, max_angle = mx, max_trials = mt, correct_streak = 0,
          reversals = 0, last_direction = None, history_angle = [], history_correct = []\<rparr>"
  have init: "jnd_init indented_col ylim_accepted mt sa mn mx = Inr s0" by (simp add: jnd_init_eq s0_def)
  have syn: "can_synthesise s0" unfolding s0_def by (rule init_can_synthesise)
  have up: "reversals s0 = 0" "last_direction s0 \<noteq> Some Down" by (simp_all add: s0_def)
  have fields: "max_trials s0 = mt" "history_angle s0 = []" "history_correct s0 = []"
    by (simp_all add: s0_def)
  have every: "\<exists>s. after_trials indented_col inps s0 = Inr s \<and> reversals s = 0 \<and>
      last_direction s \<noteq> Some Down" for inps
    using after_trials_only_up [OF import_indented syn up, of inps] by blast
  have down: "last_direction (adjust_angle s True) = Some Down" for s
    by (simp add: adjust_angle_def Let_def)
  obtain s' where fin: "after_trials indented_col (map env [0..<nat mt]) s0 = Inr s'" "reversals s' = 0"
      "last_direction s' \<noteq> Some Down"
      "length (history_angle s') = length (history_angle s0) + length (map env [0..<nat mt])"
      "length (history_correct s') = length (history_correct s0) + length (map env [0..<nat mt])"
    using after_trials_only_up [OF import_indented syn up, of "map env [0..<nat mt]"] by blast
  have "run_loop indented_col env 0 s0 = Inr s'"
    using run_loop_after_trials [OF import_indented syn up, of env 0] fin(1) by (simp add: fields)
  then have ran: "run indented_col env s0 = Inr ((history_angle s', history_correct s'), s')"
    by (simp add: run_def import_indented)
  have lens: "length (history_angle s') = nat mt" "length (history_correct s') = nat mt"
    using fin(4,5) by (simp_all add: fields)
  have final: "\<exists>s'. run indented_col env s0 = Inr ((history_angle s', history_correct s'), s') \<and>
        after_trials indented_col (map env [0..<nat mt]) s0 = Inr s' \<and>
        reversals s' = 0 \<and> last_direction s' \<noteq> Some Down \<and>
        length (history_angle s') = nat mt \<and> length (history_correct s') = nat mt"
    using ran fin(1,2,3) lens by blast
  from init every down final have "\<exists>s0. jnd_init indented_col ylim_accepted mt sa mn mx = Inr s0 \<and>
     (\<forall>inps. \<exists>s. after_trials indented_col inps s0 = Inr s \<and> reversals s = 0 \<and>
        last_direction s \<noteq> Some Down) \<and>
     (\<forall>s. last_direction (adjust_angle s True) = Some Down) \<and>
     (\<exists>s'. run indented_col env s0 = Inr ((history_angle s', history_correct s'), s') \<and>
        after_trials indented_col (map env [0..<nat mt]) s0 = Inr s' \<and>
        reversals s' = 0 \<and> last_direction s' \<noteq> Some Down \<and>
        length (history_angle s') = nat mt \<and> length (history_correct s') = nat mt)"
    by blast
  with jnd_init_shipped run_shipped show ?thesis by blast
qed

section \<open>The scenario of two correct, one incorrect and two correct trials\<close>

lemma scripted_is_correct:
  assumes "0 < angle s"
  shows "is_correct (scripted_input d o_draw c) s = c"
  using assms
  by (cases d; cases o_draw; cases c)
     (simp_all add: is_correct_def scripted_input_def correct_response_def target_angle_def
        sign_val_def py_strip_def py_isspace_def label_1_def label_2_def)

lemma scripted_trial:
  assumes "jnd_exps_import dc = Inr ()" and "can_synthesise s" and "0 < angle s"
  shows "trial_run dc (scripted_input d o_draw c) s =
           Inr ((c, sign_val d * angle s),
                log_trial (sign_val d * angle s) c (update_staircase c s))"
  using assms
  by (simp add: trial_run_returns scripted_is_correct) (simp add: target_angle_def scripted_input_def)

lemma abs_sign_val: "\<bar>sign_val d * a\<bar> = \<bar>a\<bar>"
  by (cases d) (simp_all add: sign_val_def)

text \<open>
  Claim C1 expects the probe angles \<open>10, 10, 12.5, 12.5, 12.5, 15.625\<close>. As shipped, the
  file raises \<^verbatim>\<open>IndentationError\<close> at the import and no session is constructed. With the
  docstring of \<^verbatim>\<open>trial_run\<close> indented, the code never resets \<open>correct_streak\<close>, so from the
  second correct trial on every correct trial steps the angle: for all draws of side and
  order, the session started at angle 10 with bounds 0 and 90 and the correctness pattern
  correct, correct, incorrect, correct, correct has the probe angles
  \<open>10, 10, 12.5, 12.5, 15.625, 19.53125\<close> (before the first trial and after each one), ends
  with \<open>correct_streak = 4\<close>, and its reversal count is 0.
\<close>

theorem staircase_scenario_trajectory:
  "jnd_init shipped_col ylim_accepted 5 10 0 90 = Inl IndentationError \<and>
   (\<exists>s0 s5. jnd_init indented_col ylim_accepted 5 10 0 90 = Inr s0 \<and>
     run indented_col (\<lambda>i. scripted_input (d i) (o_draw i) ([True, True, False, True, True] ! i)) s0 =
       Inr ((history_angle s5, history_correct s5), s5) \<and>
     map (\<lambda>k. map_sum id angle
            (after_trials indented_col
               (map (\<lambda>i. scripted_input (d i) (o_draw i) ([True, True, False, True, True] ! i))
                  [0..<k]) s0))
       [0..<6] = map Inr [10, 10, 25 / 2, 25 / 2, 125 / 8, 625 / 32] \<and>
     history_correct s5 = [True, True, False, True, True] \<and>
     map abs (history_angle s5) = [10, 10, 25 / 2, 25 / 2, 125 / 8] \<and>
     angle s5 = 625 / 32 \<and> correct_streak s5 = 4 \<and> reversals s5 = 0)"
proof -
  let ?env = "\<lambda>i. scripted_input (d i) (o_draw i) ([True, True, False, True, True] ! i)"
  define s0 where "s0 = \<lparr>generator = default_generator, tone = session_tone, angle = 10,
      min_angle = 0, max_angle = 90, max_trials = 5, correct_streak = 0,
      reversals = 0, last_direction = None, history_angle = [], history_correct = []\<rparr>"
  define s1 where "s1 = s0\<lparr>correct_streak := 1, history_angle := [sign_val (d 0) * 10],
      history_correct := [True]\<rparr>"
  define s2 where "s2 = s1\<lparr>angle := 25 / 2, correct_streak := 2, last_direction := Some Up,
      history_angle := history_angle s1 @ [sign_val (d 1) * 10],
      history_correct := [True, True]\<rparr>"
  define s3 where "s3 = s2\<lparr>history_angle := history_angle s2 @ [sign_val (d 2) * (25 / 2)],
      history_correct := [True, True, False]\<rparr>"
  define s4 where "s4 = s3\<lparr>angle := 125 / 8, correct_streak := 3,
      history_angle := history_angle s3 @ [sign_val (d 3) * (25 / 2)],
      history_correct := [True, True, False, True]\<rparr>"
  define s5 where "s5 = s4\<lparr>angle := 625 / 32, correct_streak := 4,
      history_angle := history_angle s4 @ [sign_val (d 4) * (125 / 8)],
      history_correct := [True, True, False, True, True]\<rparr>"
  note states = s0_def s1_def s2_def s3_def s4_def s5_def
  note steps = scripted_trial import_indented can_synthesise_def session_tone_not_Nil default_generator_def
    log_trial_def update_staircase_def adjust_angle_def Let_def
  have init: "jnd_init indented_col ylim_accepted 5 10 0 90 = Inr s0" by (simp add: jnd_init_eq s0_def)
  have t0: "trial_run indented_col (?env 0) s0 = Inr ((True, sign_val (d 0) * 10), s1)"
    by (simp add: states steps)
  have t1: "trial_run indented_col (?env 1) s1 = Inr ((True, sign_val (d 1) * 10), s2)"
    by (simp add: states steps)
  have t2: "trial_run indented_col (?env 2) s2 = Inr ((False, sign_val (d 2) * (25 / 2)), s3)"
    by (simp add: states steps)
  have t3: "trial_run indented_col (?env 3) s3 = Inr ((True, sign_val (d 3) * (25 / 2)), s4)"
    by (simp add: states steps)
  have t4: "trial_run indented_col (?env 4) s4 = Inr ((True, sign_val (d 4) * (125 / 8)), s5)"
    by (simp add: states steps)
  have l5: "run_loop indented_col ?env 5 s5 = Inr s5"
    by (rule run_loop_stop) (simp add: states)
  have l4: "run_loop indented_col ?env 4 s4 = Inr s5"
  proof -
    have "run_loop indented_col ?env 4 s4 = run_loop indented_col ?env 5 s5"
      using run_loop_next [of 4 s4 indented_col ?env _ s5 5, OF _ _ t4] by (simp add: states)
    with l5 show ?thesis by (simp only: )
  qed
  have l3: "run_loop indented_col ?env 3 s3 = Inr s5"
  proof -
    have "run_loop indented_col ?env 3 s3 = run_loop indented_col ?env 4 s4"
      using run_loop_next [of 3 s3 indented_col ?env _ s4 4, OF _ _ t3] by (simp add: states)
    with l4 show ?thesis by (simp only: )
  qed
  have l2: "run_loop indented_col ?env 2 s2 = Inr s5"
  proof -
    have "run_loop indented_col ?env 2 s2 = run_loop indented_col ?env 3 s3"
      using run_loop_next [of 2 s2 indented_col ?env _ s3 3, OF _ _ t2] by (simp add: states)
    with l3 show ?thesis by (simp only: )
  qed
  have l1: "run_loop indented_col ?env 1 s1 = Inr s5"
  proof -
    have "run_loop indented_col ?env 1 s1 = run_loop indented_col ?env 2 s2"
      using run_loop_next [of 1 s1 indented_col ?env _ s2 2, OF _ _ t1] by (simp add: states)
    with l2 show ?thesis by (simp only: )
  qed
  have l0: "run_loop indented_col ?env 0 s0 = Inr s5"
  proof -
    have "run_loop indented_col ?env 0 s0 = run_loop indented_col ?env 1 s1"
      using run_loop_next [of 0 s0 indented_col ?env _ s1 1, OF _ _ t0] by (simp add: states)
    with l1 show ?thesis by (simp only: )
  qed
  have ran: "run indented_col ?env s0 = Inr ((history_angle s5, history_correct s5), s5)"
    by (simp add: run_def l0 import_indented)
  have prefixes: "[0..<0] = []" "[0..<1] = [0]" "[0..<2] = [0, 1]" "[0..<3] = [0, 1, 2]"
      "[0..<4] = [0, 1, 2, 3]" "[0..<5] = [0, 1, 2, 3, 4]" "[0..<6] = [0, 1, 2, 3, 4, 5]"
    by (simp_all add: upt_rec)
  have a0: "after_trials indented_col (map ?env []) s0 = Inr s0" by simp
  have a1: "after_trials indented_col (map ?env [0]) s0 = Inr s1"
    using t0 by simp
  have a2: "after_trials indented_col (map ?env [0, 1]) s0 = Inr s2"
    using t0 t1 by simp
  have a3: "after_trials indented_col (map ?env [0, 1, 2]) s0 = Inr s3"
    using t0 t1 t2 by simp
  have a4: "after_trials indented_col (map ?env [0, 1, 2, 3]) s0 = Inr s4"
    using t0 t1 t2 t3 by simp
  have a5: "after_trials indented_col (map ?env [0, 1, 2, 3, 4]) s0 = Inr s5"
    using t0 t1 t2 t3 t4 by simp
  have angles: "angle s0 = 10" "angle s1 = 10" "angle s2 = 25 / 2" "angle s3 = 25 / 2"
      "angle s4 = 125 / 8" "angle s5 = 625 / 32"
    by (simp_all add: states)
  have p0: "map_sum id angle (after_trials indented_col (map ?env [0..<0]) s0) = Inr 10"
    by (simp only: prefixes(1) a0 map_sum.simps id_apply angles)
  have p1: "map_sum id angle (after_trials indented_col (map ?env [0..<1]) s0) = Inr 10"
    by (simp only: prefixes(2) a1 map_sum.simps id_apply angles)
  have p2: "map_sum id angle (after_trials indented_col (map ?env [0..<2]) s0) = Inr (25 / 2)"
    by (simp only: prefixes(3) a2 map_sum.simps id_apply angles)
  have p3: "map_sum id angle (after_trials indented_col (map ?env [0..<3]) s0) = Inr (25 / 2)"
    by (simp only: prefixes(4) a3 map_sum.simps id_apply angles)
  have p4: "map_sum id angle (after_trials indented_col (map ?env [0..<4]) s0) = Inr (125 / 8)"
    by (simp only: prefixes(5) a4 map_sum.simps id_apply angles)
  have p5: "map_sum id angle (after_trials indented_col (map ?env [0..<5]) s0) = Inr (625 / 32)"
    by (simp only: prefixes(6) a5 map_sum.simps id_apply angles)
  have traj: "map (\<lambda>k. map_sum id angle (after_trials indented_col (map ?env [0..<k]) s0)) [0..<6] =
      map Inr [10, 10, 25 / 2, 25 / 2, 125 / 8, 625 / 32]"
    by (simp only: prefixes(7) list.map p0 p1 p2 p3 p4 p5)
  have fin: "history_correct s5 = [True, True, False, True, True]"
      "map abs (history_angle s5) = [10, 10, 25 / 2, 25 / 2, 125 / 8]"
      "angle s5 = 625 / 32" "correct_streak s5 = 4" "reversals s5 = 0"
    by (simp_all add: states abs_sign_val)
  have "\<exists>s0 s5. jnd_init indented_col ylim_accepted 5 10 0 90 = Inr s0 \<and>
     run indented_col ?env s0 = Inr ((history_angle s5, history_correct s5), s5) \<and>
     map (\<lambda>k. map_sum id angle (after_trials indented_col (map ?env [0..<k]) s0)) [0..<6] =
       map Inr [10, 10, 25 / 2, 25 / 2, 125 / 8, 625 / 32] \<and>
     history_correct s5 = [True, True, False, True, True] \<and>
     map abs (history_angle s5) = [10, 10, 25 / 2, 25 / 2, 125 / 8] \<and>
     angle s5 = 625 / 32 \<and> correct_streak s5 = 4 \<and> reversals s5 = 0"
  proof (intro exI conjI)
    show "jnd_init indented_col ylim_accepted 5 10 0 90 = Inr s0" by (rule init)
    show "run indented_col ?env s0 = Inr ((history_angle s5, history_correct s5), s5)" by (rule ran)
    show "map (\<lambda>k. map_sum id angle (after_trials indented_col (map ?env [0..<k]) s0)) [0..<6] =
        map Inr [10, 10, 25 / 2, 25 / 2, 125 / 8, 625 / 32]" by (rule traj)
    show "history_correct s5 = [True, True, False, True, True]" by (rule fin)
    show "map abs (history_angle s5) = [10, 10, 25 / 2, 25 / 2, 125 / 8]" by (rule fin)
    show "angle s5 = 625 / 32" by (rule fin)
    show "correct_streak s5 = 4" by (rule fin)
    show "reversals s5 = 0" by (rule fin)
  qed
with jnd_init_shipped show ?thesis by blast
qed

end
